theory Spec2Isabelle
  imports Complex_Main "HOL-Library.Word"
begin

unbundle bit_operations_syntax

section \<open>Modbus RTU simulator and client: register codec\<close>

text \<open>
  The development embeds \<^verbatim>\<open>modbus_simulator.py\<close> (class \<^verbatim>\<open>ModbusRTUSimulator\<close>) and
  \<^verbatim>\<open>modbus_client.py\<close> (class \<^verbatim>\<open>ModbusRTUClient\<close>).

  Conventions.
  \<^item> A register is a 16-bit word, a byte an 8-bit word.
  \<^item> A Python \<^verbatim>\<open>str\<close> is a \<open>string\<close>; its characters are the code points 0..255, and
    \<^verbatim>\<open>encode("ascii")\<close> accepts exactly the code points below 128.
  \<^item> A Python \<^verbatim>\<open>float\<close> is the real number it denotes; the rounding of double
    arithmetic is not part of the model. The conversion of a value to its IEEE-754
    binary32 bit pattern, done by \<^verbatim>\<open>struct.pack(">f", v)\<close> inside the pymodbus payload
    builder, is a parameter \<open>f32\<close> of every function that writes a float, and the
    conversion back (\<^verbatim>\<open>struct.unpack(">f", b)\<close>) a parameter \<open>unf32\<close> of every
    function that reads one. Between the two the model works on the 32-bit pattern.
  \<^item> Every exception the Python can raise is a value of \<open>error\<close>; a function that can
    raise returns \<open>error + 'a\<close>.
\<close>

type_synonym byte = "8 word"
type_synonym register = "16 word"

datatype error =
    UnicodeEncodeError   \<comment> \<open>\<^verbatim>\<open>str.encode("ascii")\<close> on a code point above 127\<close>
  | UnicodeDecodeError   \<comment> \<open>\<^verbatim>\<open>bytes.decode("ascii")\<close> on a byte above 127\<close>
  | StructError          \<comment> \<open>\<^verbatim>\<open>struct.unpack\<close> on a buffer of the wrong size\<close>
  | TypeError            \<comment> \<open>formatting \<^verbatim>\<open>None\<close> with \<^verbatim>\<open>:.2f\<close>\<close>
  | NoSuchSlaveException \<comment> \<open>\<^verbatim>\<open>ModbusServerContext.__getitem__\<close> on an unknown id\<close>

subsection \<open>Two bytes and one register\<close>

text \<open>\<^verbatim>\<open>struct.unpack(">H", bytes([hi, lo]))[0]\<close>: the big-endian 16-bit value.\<close>

definition be16 :: "byte \<Rightarrow> byte \<Rightarrow> register" where
  "be16 hi lo = push_bit 8 (ucast hi) OR ucast lo"

text \<open>
  \<^verbatim>\<open>struct.unpack(">H", b)[0]\<close> on a slice \<open>b\<close>: it needs a buffer of exactly two bytes and
  raises \<^verbatim>\<open>struct.error\<close> on any other size.
\<close>

fun unpack_H :: "byte list \<Rightarrow> error + register" where
  "unpack_H [hi, lo] = Inr (be16 hi lo)"
| "unpack_H _ = Inl StructError"

text \<open>
  \<^verbatim>\<open>struct.pack(">H", r)\<close>, which is also \<^verbatim>\<open>r.to_bytes(2, byteorder="big")\<close>: the high
  byte, then the low byte.
\<close>

definition pack_H :: "register \<Rightarrow> byte list" where
  "pack_H r = [ucast (drop_bit 8 r), ucast r]"

subsection \<open>The payload builder and decoder for a 32-bit float\<close>

text \<open>
  \<^verbatim>\<open>BinaryPayloadBuilder(byteorder=Endian.BIG, wordorder=Endian.BIG)\<close>,
  \<^verbatim>\<open>add_32bit_float\<close>: the four bytes of the binary32 pattern, most significant first.
\<close>

definition add_32bit_float :: "32 word \<Rightarrow> byte list" where
  "add_32bit_float w =
     [ucast (drop_bit 24 w), ucast (drop_bit 16 w), ucast (drop_bit 8 w), ucast w]"

text \<open>
  \<^verbatim>\<open>builder.to_registers()\<close>: the payload cut into two-byte pieces, each unpacked with
  \<^verbatim>\<open>">H"\<close>. The builder's payload always has an even number of bytes.
\<close>

fun to_registers :: "byte list \<Rightarrow> register list" where
  "to_registers (hi # lo # bs) = be16 hi lo # to_registers bs"
| "to_registers _ = []"

text \<open>
  \<^verbatim>\<open>BinaryPayloadDecoder.fromRegisters(registers, byteorder=Endian.BIG,
  wordorder=Endian.BIG)\<close>: the payload is each register packed with \<^verbatim>\<open>">H"\<close>, in order.
\<close>

definition fromRegisters :: "register list \<Rightarrow> byte list" where
  "fromRegisters rs = concat (map pack_H rs)"

text \<open>
  \<^verbatim>\<open>decoder.decode_32bit_float()\<close> on a fresh decoder: the first four bytes of the
  payload, read as a big-endian 32-bit pattern; \<^verbatim>\<open>struct.error\<close> when the payload is
  shorter.
\<close>

fun decode_32bit_float :: "byte list \<Rightarrow> error + 32 word" where
  "decode_32bit_float (b0 # b1 # b2 # b3 # bs) =
     Inr (push_bit 24 (ucast b0) OR push_bit 16 (ucast b1) OR push_bit 8 (ucast b2) OR ucast b3)"
| "decode_32bit_float _ = Inl StructError"

subsection \<open>The register store of a slave context\<close>

text \<open>
  \<^verbatim>\<open>ModbusSlaveContext(hr=hr, ir=ir, zero_mode=True)\<close> holds two
  \<^verbatim>\<open>ModbusSequentialDataBlock(0, values)\<close>; each block is a Python list of registers
  that starts at address 0.
\<close>

record slave_context =
  hr :: "register list"
  ir :: "register list"

text \<open>
  \<^verbatim>\<open>ModbusSequentialDataBlock.setValues(address, values)\<close> is the slice assignment
  \<^verbatim>\<open>self.values[start : start + len(values)] = values\<close> with \<^verbatim>\<open>start = address - 0\<close>.
  A Python slice assignment replaces the part of the slice that exists and inserts the
  rest, so a write that reaches beyond the end of the list makes the list longer.
\<close>

definition block_setValues :: "nat \<Rightarrow> register list \<Rightarrow> register list \<Rightarrow> register list" where
  "block_setValues address vals block =
     take address block @ vals @ drop (address + length vals) block"

text \<open>\<^verbatim>\<open>ModbusSequentialDataBlock.getValues(address, count)\<close>: the slice
  \<^verbatim>\<open>self.values[start : start + count]\<close>.\<close>

definition block_getValues :: "nat \<Rightarrow> nat \<Rightarrow> register list \<Rightarrow> register list" where
  "block_getValues address count block = take count (drop address block)"

text \<open>
  \<^verbatim>\<open>context.setValues(3, address, registers)\<close> and \<^verbatim>\<open>context.getValues(3, address, count)\<close>:
  function code 3 selects the holding registers, and \<^verbatim>\<open>zero_mode=True\<close> leaves the
  address as it is.
\<close>

definition setValues3 :: "slave_context \<Rightarrow> nat \<Rightarrow> register list \<Rightarrow> slave_context" where
  "setValues3 context address registers =
     context\<lparr>hr := block_setValues address registers (hr context)\<rparr>"

definition getValues3 :: "slave_context \<Rightarrow> nat \<Rightarrow> nat \<Rightarrow> register list" where
  "getValues3 context address count = block_getValues address count (hr context)"

subsection \<open>The simulator's writers\<close>

text \<open>\<^verbatim>\<open>ModbusRTUSimulator.write_float(context, address, value)\<close>.\<close>

definition write_float ::
  "(real \<Rightarrow> 32 word) \<Rightarrow> slave_context \<Rightarrow> nat \<Rightarrow> real \<Rightarrow> slave_context" where
  "write_float f32 context address v =
     (let registers = to_registers (add_32bit_float (f32 v))
      in setValues3 context address registers)"

text \<open>\<^verbatim>\<open>value.ljust(length, "\0")\<close>: pads on the right up to the width, and returns the
  string as it is when it is already that long or longer.\<close>

definition ljust :: "string \<Rightarrow> nat \<Rightarrow> char \<Rightarrow> string" where
  "ljust s width fill = s @ replicate (width - length s) fill"

text \<open>\<^verbatim>\<open>padded_value.encode("ascii")\<close>.\<close>

definition encode_ascii :: "string \<Rightarrow> error + byte list" where
  "encode_ascii s =
     (if list_all (\<lambda>c. (of_char c :: nat) < 128) s then Inr (map of_char s)
      else Inl UnicodeEncodeError)"

text \<open>The slices \<^verbatim>\<open>bytes_value[i : i + 2] for i in range(0, len(bytes_value), 2)\<close>: the
  last one has a single byte when the length is odd.\<close>

fun byte_slices :: "byte list \<Rightarrow> byte list list" where
  "byte_slices [] = []"
| "byte_slices [b] = [[b]]"
| "byte_slices (hi # lo # bs) = [hi, lo] # byte_slices bs"

text \<open>The list comprehension over the slices: the first slice that \<^verbatim>\<open>struct.unpack\<close>
  refuses raises, and no list is built.\<close>

fun unpack_slices :: "byte list list \<Rightarrow> error + register list" where
  "unpack_slices [] = Inr []"
| "unpack_slices (s # ss) =
     (case unpack_H s of
        Inl e \<Rightarrow> Inl e
      | Inr r \<Rightarrow> (case unpack_slices ss of Inl e \<Rightarrow> Inl e | Inr rs \<Rightarrow> Inr (r # rs)))"

text \<open>The registers \<^verbatim>\<open>write_string\<close> computes before it writes them.\<close>

definition string_registers :: "string \<Rightarrow> nat \<Rightarrow> error + register list" where
  "string_registers v len =
     (let padded_value = ljust v len (CHR 0x00)
      in case encode_ascii padded_value of
           Inl e \<Rightarrow> Inl e
         | Inr bytes_value \<Rightarrow> unpack_slices (byte_slices bytes_value))"

text \<open>\<^verbatim>\<open>ModbusRTUSimulator.write_string(context, address, value, length)\<close>.\<close>

definition write_string ::
  "slave_context \<Rightarrow> nat \<Rightarrow> string \<Rightarrow> nat \<Rightarrow> error + slave_context" where
  "write_string context address v len =
     (case string_registers v len of
        Inl e \<Rightarrow> Inl e
      | Inr registers \<Rightarrow> Inr (setValues3 context address registers))"

subsection \<open>The client's decoders\<close>

text \<open>
  The client's transport, \<^verbatim>\<open>self.client.read_holding_registers(address, count=n,
  slave=device_id)\<close>, is a parameter \<open>client\<close> of every reading function: it gives
  \<open>Some registers\<close> for a normal response and \<open>None\<close> for a response whose
  \<^verbatim>\<open>isError()\<close> is true.
\<close>

type_synonym transport = "nat \<Rightarrow> nat \<Rightarrow> nat \<Rightarrow> register list option"

text \<open>The part of \<^verbatim>\<open>read_float\<close> after a normal response: the bit pattern decoded from
  the registers.\<close>

definition decode_float_registers :: "register list \<Rightarrow> error + 32 word" where
  "decode_float_registers registers = decode_32bit_float (fromRegisters registers)"

text \<open>\<^verbatim>\<open>ModbusRTUClient.read_float(device_id, address)\<close>; Python's \<^verbatim>\<open>None\<close> is \<open>None\<close>.\<close>

definition read_float ::
  "(32 word \<Rightarrow> real) \<Rightarrow> transport \<Rightarrow> nat \<Rightarrow> nat \<Rightarrow> error + real option" where
  "read_float unf32 client device_id address =
     (case client address 2 device_id of
        Some registers \<Rightarrow>
          (case decode_float_registers registers of
             Inl e \<Rightarrow> Inl e
           | Inr w \<Rightarrow> Inr (Some (unf32 w)))
      | None \<Rightarrow> Inr None)"

text \<open>\<^verbatim>\<open>bytes(bytes_list).decode("ascii")\<close>.\<close>

definition decode_ascii :: "byte list \<Rightarrow> error + string" where
  "decode_ascii bs =
     (if list_all (\<lambda>b. unat b < 128) bs then Inr (map (\<lambda>b. char_of (unat b)) bs)
      else Inl UnicodeDecodeError)"

text \<open>\<^verbatim>\<open>s.rstrip("\0")\<close>: the string without its trailing NUL characters.\<close>

definition rstrip :: "string \<Rightarrow> char \<Rightarrow> string" where
  "rstrip s c = rev (dropWhile (\<lambda>x. x = c) (rev s))"

text \<open>The part of \<^verbatim>\<open>read_string\<close> after a normal response.\<close>

definition decode_string_registers :: "register list \<Rightarrow> error + string" where
  "decode_string_registers registers =
     (let bytes_list = concat (map pack_H registers)
      in case decode_ascii bytes_list of
           Inl e \<Rightarrow> Inl e
         | Inr s \<Rightarrow> Inr (rstrip s (CHR 0x00)))"

text \<open>\<^verbatim>\<open>ModbusRTUClient.read_string(device_id, address, length)\<close>.\<close>

definition read_string :: "transport \<Rightarrow> nat \<Rightarrow> nat \<Rightarrow> nat \<Rightarrow> error + string option" where
  "read_string client device_id address len =
     (let register_count = (len + 1) div 2
      in case client address register_count device_id of
           Some registers \<Rightarrow>
             (case decode_string_registers registers of
                Inl e \<Rightarrow> Inl e
              | Inr s \<Rightarrow> Inr (Some s))
         | None \<Rightarrow> Inr None)"

section \<open>The configuration document\<close>

text \<open>
  \<^verbatim>\<open>self.config = yaml.safe_load(f)\<close>: the loaded document, with the keys the two programs
  read. A key that the code tests with \<^verbatim>\<open>in\<close> before it reads it is optional; the others are
  read without a test and are always present in the model. Addresses, lengths and
  identifiers are natural numbers.
\<close>

record sfp_entry =
  sfp :: nat            \<comment> \<open>\<^verbatim>\<open>sfp["sfp"]\<close>\<close>
  tx_power :: nat       \<comment> \<open>\<^verbatim>\<open>sfp["tx_power"]["address"]\<close>\<close>
  rx_power :: nat       \<comment> \<open>\<^verbatim>\<open>sfp["rx_power"]["address"]\<close>\<close>
  temperature :: nat    \<comment> \<open>\<^verbatim>\<open>sfp["temperature"]["address"]\<close>\<close>

record string_field =
  field_address :: nat  \<comment> \<open>\<^verbatim>\<open>["address"]\<close>\<close>
  field_length :: nat   \<comment> \<open>\<^verbatim>\<open>["length"]\<close>\<close>

record product_info_cfg =
  product_number :: "string_field option"
  serial_number :: "string_field option"

record registers_cfg =
  sfps :: "sfp_entry list option"
  product_info :: "product_info_cfg option"

record device =
  device_id :: nat
  description :: string
  baudrate :: nat
  registers :: "registers_cfg option"

section \<open>The simulator\<close>

subsection \<open>Seeding at construction\<close>

text \<open>The table \<^verbatim>\<open>sfp_base_values\<close> of \<^verbatim>\<open>init_sfp_data\<close>: channel to (tx, rx).\<close>

definition init_sfp_base_values :: "nat \<rightharpoonup> real \<times> real" where
  "init_sfp_base_values =
     [1 \<mapsto> (3.0, 0.1), 2 \<mapsto> (3.0, 0.1), 3 \<mapsto> (3.0, 0.1), 4 \<mapsto> (3.0, 0.1)]"

text \<open>\<^verbatim>\<open>ModbusRTUSimulator.init_sfp_data(context, sfps)\<close>.\<close>

fun init_sfp_data ::
  "(real \<Rightarrow> 32 word) \<Rightarrow> slave_context \<Rightarrow> sfp_entry list \<Rightarrow> slave_context" where
  "init_sfp_data f32 context [] = context"
| "init_sfp_data f32 context (s # rest) =
     (case init_sfp_base_values (sfp s) of
        Some (tx, rx) \<Rightarrow>
          (let c1 = write_float f32 context (tx_power s) tx;
               c2 = write_float f32 c1 (rx_power s) rx;
               c3 = write_float f32 c2 (temperature s) 25.0
           in init_sfp_data f32 c3 rest)
      | None \<Rightarrow> init_sfp_data f32 context rest)"

text \<open>
  The body shared by \<^verbatim>\<open>init_product_info\<close> and \<^verbatim>\<open>update_product_info\<close>: the product number
  is written when the key is there, then the serial number. An exception of the first
  write leaves the second undone.
\<close>

definition write_product_info ::
  "slave_context \<Rightarrow> product_info_cfg \<Rightarrow> string \<Rightarrow> string \<Rightarrow> error + slave_context" where
  "write_product_info context pinfo pn sn =
     (case (case product_number pinfo of
              Some f \<Rightarrow> write_string context (field_address f) pn (field_length f)
            | None \<Rightarrow> Inr context) of
        Inl e \<Rightarrow> Inl e
      | Inr c1 \<Rightarrow>
          (case serial_number pinfo of
             Some f \<Rightarrow> write_string c1 (field_address f) sn (field_length f)
           | None \<Rightarrow> Inr c1))"

text \<open>\<^verbatim>\<open>ModbusRTUSimulator.init_product_info(context, product_info)\<close>.\<close>

definition init_product_info :: "slave_context \<Rightarrow> product_info_cfg \<Rightarrow> error + slave_context" where
  "init_product_info context pinfo =
     write_product_info context pinfo ''PROD123456'' ''SN987654321''"

text \<open>
  \<^verbatim>\<open>_create_slave_context\<close> allocates a new slave context object: two blocks of 65536
  zero registers. Objects live in a heap, a list indexed by reference, so that two names
  for one object are two equal references. The function returns the new reference and the
  heap with the object added.
\<close>

definition create_slave_context :: "slave_context list \<Rightarrow> nat \<times> slave_context list" where
  "create_slave_context h =
     (length h, h @ [\<lparr>hr = replicate 65536 0, ir = replicate 65536 0\<rparr>])"

text \<open>
  The body of the loop of \<^verbatim>\<open>_setup_server_context\<close> for one device that passed the test
  on its identifier: the seeding of the slave context.
\<close>

definition init_device ::
  "(real \<Rightarrow> 32 word) \<Rightarrow> device \<Rightarrow> slave_context \<Rightarrow> error + slave_context" where
  "init_device f32 d context =
     (case registers d of
        None \<Rightarrow> Inr context
      | Some regs \<Rightarrow>
          (case (device_id d = 1, sfps regs) of
             (True, Some ss) \<Rightarrow> Inr (init_sfp_data f32 context ss)
           | _ \<Rightarrow>
               (case (device_id d = 2, product_info regs) of
                  (True, Some pinfo) \<Rightarrow> init_product_info context pinfo
                | _ \<Rightarrow> Inr context)))"

text \<open>
  The loop of \<^verbatim>\<open>_setup_server_context\<close> over \<^verbatim>\<open>self.config["modbus_devices"]\<close>. The state is
  the heap and the dictionary \<^verbatim>\<open>contexts\<close>, from device identifier to reference;
  \<open>slave_context\<close> is the reference the loop was entered with.
\<close>

fun setup_devices ::
  "(real \<Rightarrow> 32 word) \<Rightarrow> nat \<Rightarrow> device list \<Rightarrow> slave_context list \<times> (nat \<rightharpoonup> nat) \<Rightarrow>
   error + slave_context list \<times> (nat \<rightharpoonup> nat)" where
  "setup_devices f32 slave_context [] (h, contexts) = Inr (h, contexts)"
| "setup_devices f32 slave_context (d # ds) (h, contexts) =
     (if device_id d \<notin> set [1, 2] then setup_devices f32 slave_context ds (h, contexts)
      else
        (case init_device f32 d (h ! slave_context) of
           Inl e \<Rightarrow> Inl e
         | Inr c \<Rightarrow>
             setup_devices f32 slave_context ds
               (h[slave_context := c], contexts(device_id d \<mapsto> slave_context))))"

text \<open>
  \<^verbatim>\<open>ModbusRTUSimulator._setup_server_context()\<close>: the one call of
  \<^verbatim>\<open>_create_slave_context\<close> stands before the loop. The result is the heap and the
  dictionary given to \<^verbatim>\<open>ModbusServerContext(slaves=contexts, single=False)\<close>.
\<close>

definition setup_server_context ::
  "(real \<Rightarrow> 32 word) \<Rightarrow> device list \<Rightarrow> error + slave_context list \<times> (nat \<rightharpoonup> nat)" where
  "setup_server_context f32 cfg =
     (let (slave_context, h) = create_slave_context []
      in setup_devices f32 slave_context cfg (h, Map.empty))"

text \<open>The lines \<^verbatim>\<open>log.info\<close> writes.\<close>

datatype log_line = Completed_SFP_update | Completed_Product_Info_update

text \<open>
  The simulator object and what its update thread changes: the configuration, the heap of
  slave contexts, \<^verbatim>\<open>self.context\<close> as the dictionary of served identifiers, the log, and
  the number of calls of \<^verbatim>\<open>random.random()\<close> made so far.
\<close>

record simulator =
  config :: "device list"
  heap :: "slave_context list"
  slaves :: "nat \<rightharpoonup> nat"
  log_lines :: "log_line list"
  random_calls :: nat

text \<open>\<^verbatim>\<open>ModbusRTUSimulator.__init__\<close>, from the loaded configuration. An exception of the
  seeding leaves no simulator object.\<close>

definition simulator_init :: "(real \<Rightarrow> 32 word) \<Rightarrow> device list \<Rightarrow> error + simulator" where
  "simulator_init f32 cfg =
     (case setup_server_context f32 cfg of
        Inl e \<Rightarrow> Inl e
      | Inr (h, contexts) \<Rightarrow>
          Inr \<lparr>config = cfg, heap = h, slaves = contexts, log_lines = [], random_calls = 0\<rparr>)"

subsection \<open>The update thread\<close>

text \<open>
  \<^verbatim>\<open>random.uniform(a, b)\<close> is \<^verbatim>\<open>a + (b - a) * random.random()\<close>. The generator is the
  sequence \<open>rng\<close> of the values \<^verbatim>\<open>random.random()\<close> returns, each in the interval from 0
  (included) to 1 (excluded); \<open>k\<close> is the number of values already taken.
\<close>

definition uniform :: "(nat \<Rightarrow> real) \<Rightarrow> nat \<Rightarrow> real \<Rightarrow> real \<Rightarrow> real" where
  "uniform rng k a b = a + (b - a) * rng k"

text \<open>The table \<^verbatim>\<open>sfp_base_values\<close> of \<^verbatim>\<open>update_sfp_values\<close>.\<close>

definition update_sfp_base_values :: "nat \<rightharpoonup> real \<times> real" where
  "update_sfp_base_values =
     [1 \<mapsto> (3.0, 0.07), 2 \<mapsto> (3.0, 0.07), 3 \<mapsto> (3.0, 0.07), 4 \<mapsto> (3.0, 0.07)]"

text \<open>The three values one pass of the loop of \<^verbatim>\<open>update_sfp_values\<close> computes for a
  channel with the base values \<open>(tx, rx)\<close>: \<^verbatim>\<open>tx_power\<close>, \<^verbatim>\<open>rx_power\<close>, \<^verbatim>\<open>temperature\<close>.\<close>

definition sfp_variation :: "(nat \<Rightarrow> real) \<Rightarrow> nat \<Rightarrow> real \<times> real \<Rightarrow> real \<times> real \<times> real" where
  "sfp_variation rng k base =
     (fst base + uniform rng k (-0.05) 0.05,
      snd base + uniform rng (k + 1) (-0.03) 0.03,
      25.0 + uniform rng (k + 2) (-1) 1)"

text \<open>The loop of \<^verbatim>\<open>ModbusRTUSimulator.update_sfp_values(slave_context, sfps)\<close>; it returns
  the slave context and the count of random values taken.\<close>

fun update_sfp_values ::
  "(real \<Rightarrow> 32 word) \<Rightarrow> (nat \<Rightarrow> real) \<Rightarrow> slave_context \<times> nat \<Rightarrow> sfp_entry list \<Rightarrow>
   slave_context \<times> nat" where
  "update_sfp_values f32 rng (context, k) [] = (context, k)"
| "update_sfp_values f32 rng (context, k) (s # rest) =
     (case update_sfp_base_values (sfp s) of
        Some base \<Rightarrow>
          (case sfp_variation rng k base of
             (tx_power_v, rx_power_v, temperature_v) \<Rightarrow>
               (let c1 = write_float f32 context (tx_power s) tx_power_v;
                    c2 = write_float f32 c1 (rx_power s) rx_power_v;
                    c3 = write_float f32 c2 (temperature s) temperature_v
                in update_sfp_values f32 rng (c3, k + 3) rest))
      | None \<Rightarrow> update_sfp_values f32 rng (context, k) rest)"

text \<open>\<^verbatim>\<open>ModbusRTUSimulator.update_product_info(slave_context, product_info,
  product_number, serial_number)\<close>, without its log line.\<close>

definition update_product_info ::
  "slave_context \<Rightarrow> product_info_cfg \<Rightarrow> string \<Rightarrow> string \<Rightarrow> error + slave_context" where
  "update_product_info context pinfo pn sn = write_product_info context pinfo pn sn"

text \<open>
  The body of the \<^verbatim>\<open>for\<close> loop of \<^verbatim>\<open>update_values\<close> for one device, at the value
  \<open>counter\<close> of the tick counter. \<^verbatim>\<open>self.context[device_id]\<close> raises for an identifier
  that is not served. Each updater writes its log line when it returns.
\<close>

definition update_device ::
  "(real \<Rightarrow> 32 word) \<Rightarrow> (nat \<Rightarrow> real) \<Rightarrow> nat \<Rightarrow> device \<Rightarrow> simulator \<Rightarrow> error + simulator" where
  "update_device f32 rng counter d sim =
     (if device_id d \<notin> set [1, 2] then Inr sim
      else
        (case slaves sim (device_id d) of
           None \<Rightarrow> Inl NoSuchSlaveException
         | Some slave_context \<Rightarrow>
             (case registers d of
                None \<Rightarrow> Inr sim
              | Some regs \<Rightarrow>
                  (case (device_id d = 1, sfps regs) of
                     (True, Some ss) \<Rightarrow>
                       (case update_sfp_values f32 rng
                               (heap sim ! slave_context, random_calls sim) ss of
                          (c, k) \<Rightarrow>
                            Inr (sim\<lparr>heap := (heap sim)[slave_context := c],
                                     random_calls := k,
                                     log_lines := log_lines sim @ [Completed_SFP_update]\<rparr>))
                   | _ \<Rightarrow>
                       (case (device_id d = 2 \<and> counter mod 10 = 0, product_info regs) of
                          (True, Some pinfo) \<Rightarrow>
                            (case update_product_info (heap sim ! slave_context) pinfo
                                    ''PROD-12'' ''SN-Q10'' of
                               Inl e \<Rightarrow> Inl e
                             | Inr c \<Rightarrow>
                                 Inr (sim\<lparr>heap := (heap sim)[slave_context := c],
                                          log_lines := log_lines sim @
                                            [Completed_Product_Info_update]\<rparr>))
                        | _ \<Rightarrow> Inr sim)))))"

text \<open>The \<^verbatim>\<open>for\<close> loop of \<^verbatim>\<open>update_values\<close>: one tick.\<close>

fun update_devices ::
  "(real \<Rightarrow> 32 word) \<Rightarrow> (nat \<Rightarrow> real) \<Rightarrow> nat \<Rightarrow> device list \<Rightarrow> simulator \<Rightarrow> error + simulator" where
  "update_devices f32 rng counter [] sim = Inr sim"
| "update_devices f32 rng counter (d # ds) sim =
     (case update_device f32 rng counter d sim of
        Inl e \<Rightarrow> Inl e
      | Inr sim' \<Rightarrow> update_devices f32 rng counter ds sim')"

text \<open>
  The state of the thread that runs \<^verbatim>\<open>update_values\<close>: the simulator it works on, its
  local variable \<^verbatim>\<open>counter\<close>, and the seconds it has spent in \<^verbatim>\<open>time.sleep\<close> since it
  started.
\<close>

record update_thread =
  thread_sim :: simulator
  counter :: nat
  slept :: nat

text \<open>
  The body of the \<^verbatim>\<open>while True\<close> loop up to its last statement: the \<^verbatim>\<open>for\<close> loop over the
  devices, then \<^verbatim>\<open>counter += 1\<close>. An exception of the \<^verbatim>\<open>for\<close> loop ends the thread.
\<close>

definition update_values_pass ::
  "(real \<Rightarrow> 32 word) \<Rightarrow> (nat \<Rightarrow> real) \<Rightarrow> update_thread \<Rightarrow> error + update_thread" where
  "update_values_pass f32 rng st =
     (case update_devices f32 rng (counter st) (config (thread_sim st)) (thread_sim st) of
        Inl e \<Rightarrow> Inl e
      | Inr sim' \<Rightarrow> Inr (st\<lparr>thread_sim := sim', counter := counter st + 1\<rparr>))"

text \<open>\<^verbatim>\<open>time.sleep(seconds)\<close>: the thread does nothing but wait.\<close>

definition time_sleep :: "nat \<Rightarrow> update_thread \<Rightarrow> update_thread" where
  "time_sleep seconds st = st\<lparr>slept := slept st + seconds\<rparr>"

text \<open>
  The \<^verbatim>\<open>while True\<close> loop never ends by itself. The model runs a given number of passes:
  \<open>update_values_loop f32 rng n st\<close> makes \<open>n\<close> times the body and \<^verbatim>\<open>time.sleep(1)\<close>.
\<close>

fun update_values_loop ::
  "(real \<Rightarrow> 32 word) \<Rightarrow> (nat \<Rightarrow> real) \<Rightarrow> nat \<Rightarrow> update_thread \<Rightarrow> error + update_thread" where
  "update_values_loop f32 rng 0 st = Inr st"
| "update_values_loop f32 rng (Suc n) st =
     (case update_values_pass f32 rng st of
        Inl e \<Rightarrow> Inl e
      | Inr st' \<Rightarrow> update_values_loop f32 rng n (time_sleep 1 st'))"

text \<open>
  The thread of \<^verbatim>\<open>ModbusRTUSimulator.update_values()\<close>, stopped after \<open>n\<close> passes: it
  starts with \<^verbatim>\<open>counter = 0\<close> and no second slept, then runs the loop.
\<close>

definition update_values_thread ::
  "(real \<Rightarrow> 32 word) \<Rightarrow> (nat \<Rightarrow> real) \<Rightarrow> nat \<Rightarrow> simulator \<Rightarrow> error + update_thread" where
  "update_values_thread f32 rng n sim =
     update_values_loop f32 rng n \<lparr>thread_sim = sim, counter = 0, slept = 0\<rparr>"

text \<open>The simulator that \<^verbatim>\<open>update_values()\<close> leaves after \<open>n\<close> passes.\<close>

definition update_values ::
  "(real \<Rightarrow> 32 word) \<Rightarrow> (nat \<Rightarrow> real) \<Rightarrow> nat \<Rightarrow> simulator \<Rightarrow> error + simulator" where
  "update_values f32 rng n sim =
     (case update_values_thread f32 rng n sim of
        Inl e \<Rightarrow> Inl e
      | Inr st \<Rightarrow> Inr (thread_sim st))"

section \<open>The client\<close>

text \<open>What \<^verbatim>\<open>read_all_values\<close> prints, one value for each \<^verbatim>\<open>print\<close>. The three floats are
  printed with two decimals; the model keeps the values.\<close>

datatype printed =
    Reading_from nat string
  | SFP_header nat
  | SFP_values real real real
  | Product_Info_header
  | Product_Number "string option"
  | Serial_Number "string option"

text \<open>
  The format \<^verbatim>\<open>f"{rx_power:.2f} dBm, {tx_power:.2f} dBm, {temp:.2f} \<dots>"\<close>: the
  specification \<^verbatim>\<open>.2f\<close> applied to \<^verbatim>\<open>None\<close> raises \<^verbatim>\<open>TypeError\<close>.
\<close>

definition format_sfp :: "real option \<Rightarrow> real option \<Rightarrow> real option \<Rightarrow> error + printed" where
  "format_sfp rx tx temp =
     (case (rx, tx, temp) of
        (Some a, Some b, Some c) \<Rightarrow> Inr (SFP_values a b c)
      | _ \<Rightarrow> Inl TypeError)"

text \<open>
  The reading functions return what was printed and the exception that ended the
  reading, if one did. The loop over \<^verbatim>\<open>device["registers"]["sfps"]\<close>:
\<close>

fun read_sfps ::
  "(32 word \<Rightarrow> real) \<Rightarrow> transport \<Rightarrow> nat \<Rightarrow> sfp_entry list \<Rightarrow> printed list \<Rightarrow>
   printed list \<times> error option" where
  "read_sfps unf32 client dev [] out = (out, None)"
| "read_sfps unf32 client dev (s # rest) out =
     (let out1 = out @ [SFP_header (sfp s)]
      in case read_float unf32 client dev (rx_power s) of
           Inl e \<Rightarrow> (out1, Some e)
         | Inr rx \<Rightarrow>
             (case read_float unf32 client dev (tx_power s) of
                Inl e \<Rightarrow> (out1, Some e)
              | Inr tx \<Rightarrow>
                  (case read_float unf32 client dev (temperature s) of
                     Inl e \<Rightarrow> (out1, Some e)
                   | Inr temp \<Rightarrow>
                       (case format_sfp rx tx temp of
                          Inl e \<Rightarrow> (out1, Some e)
                        | Inr line \<Rightarrow> read_sfps unf32 client dev rest (out1 @ [line])))))"

text \<open>The block under \<^verbatim>\<open>if "product_info" in device["registers"]\<close>.\<close>

definition read_product_info ::
  "transport \<Rightarrow> nat \<Rightarrow> product_info_cfg \<Rightarrow> printed list \<Rightarrow> printed list \<times> error option" where
  "read_product_info client dev pinfo out =
     (let out1 = out @ [Product_Info_header]
      in case (case product_number pinfo of
                 Some f \<Rightarrow>
                   (case read_string client dev (field_address f) (field_length f) of
                      Inl e \<Rightarrow> (out1, Some e)
                    | Inr v \<Rightarrow> (out1 @ [Product_Number v], None))
               | None \<Rightarrow> (out1, None)) of
           (out2, Some e) \<Rightarrow> (out2, Some e)
         | (out2, None) \<Rightarrow>
             (case serial_number pinfo of
                Some f \<Rightarrow>
                  (case read_string client dev (field_address f) (field_length f) of
                     Inl e \<Rightarrow> (out2, Some e)
                   | Inr v \<Rightarrow> (out2 @ [Serial_Number v], None))
              | None \<Rightarrow> (out2, None)))"

text \<open>The body of the loop of \<^verbatim>\<open>read_all_values\<close> for one device.\<close>

definition read_device ::
  "(32 word \<Rightarrow> real) \<Rightarrow> transport \<Rightarrow> device \<Rightarrow> printed list \<Rightarrow> printed list \<times> error option" where
  "read_device unf32 client d out =
     (let out1 = out @ [Reading_from (device_id d) (description d)]
      in case registers d of
           None \<Rightarrow> (out1, None)
         | Some regs \<Rightarrow>
             (case (case sfps regs of
                      Some ss \<Rightarrow> read_sfps unf32 client (device_id d) ss out1
                    | None \<Rightarrow> (out1, None)) of
                (out2, Some e) \<Rightarrow> (out2, Some e)
              | (out2, None) \<Rightarrow>
                  (case product_info regs of
                     Some pinfo \<Rightarrow> read_product_info client (device_id d) pinfo out2
                   | None \<Rightarrow> (out2, None))))"

text \<open>The loop of \<^verbatim>\<open>read_all_values\<close> over the devices.\<close>

fun read_devices ::
  "(32 word \<Rightarrow> real) \<Rightarrow> transport \<Rightarrow> device list \<Rightarrow> printed list \<Rightarrow> printed list \<times> error option" where
  "read_devices unf32 client [] out = (out, None)"
| "read_devices unf32 client (d # ds) out =
     (case read_device unf32 client d out of
        (out1, Some e) \<Rightarrow> (out1, Some e)
      | (out1, None) \<Rightarrow> read_devices unf32 client ds out1)"

text \<open>\<^verbatim>\<open>ModbusRTUClient.read_all_values()\<close>: one polling cycle.\<close>

definition read_all_values ::
  "(32 word \<Rightarrow> real) \<Rightarrow> transport \<Rightarrow> device list \<Rightarrow> printed list \<times> error option" where
  "read_all_values unf32 client cfg = read_devices unf32 client cfg []"

section \<open>The register writes of construction\<close>

text \<open>
  The seeds of construction, written out as a list of register writes: a write is the
  address and the registers of one call of \<^verbatim>\<open>context.setValues(3, address, registers)\<close>.
  The lists are not taken from the programs. They say which entries of a configuration
  are seeded, with which values and in which order, and the lemmas below show that
  construction performs exactly these writes.
\<close>

type_synonym register_write = "nat \<times> register list"

definition apply_writes :: "register_write list \<Rightarrow> slave_context \<Rightarrow> slave_context" where
  "apply_writes ws c = fold (\<lambda>w c'. setValues3 c' (fst w) (snd w)) ws c"

text \<open>The write of a float \<open>v\<close> at an address.\<close>

definition float_write :: "(real \<Rightarrow> 32 word) \<Rightarrow> nat \<Rightarrow> real \<Rightarrow> register_write" where
  "float_write f32 address v = (address, to_registers (add_32bit_float (f32 v)))"








section \<open>The refresh of the product information\<close>




section \<open>Properties of the codec\<close>

subsection \<open>Bytes and registers\<close>

lemma hi_be16: "ucast (drop_bit 8 (be16 hi lo)) = hi"
  unfolding be16_def by (rule bit_word_eqI) (auto simp: bit_simps dest: bit_imp_le_length)

lemma lo_be16: "ucast (be16 hi lo) = lo"
  unfolding be16_def by (rule bit_word_eqI) (auto simp: bit_simps dest: bit_imp_le_length)

lemma pack_H_be16: "pack_H (be16 hi lo) = [hi, lo]"
  by (simp add: pack_H_def hi_be16 lo_be16)

lemma float_bits_roundtrip:
  "decode_32bit_float (fromRegisters (to_registers (add_32bit_float w))) = Inr w"
proof -
  have "push_bit 24 (ucast (ucast (drop_bit 24 w) :: byte)) OR
        push_bit 16 (ucast (ucast (drop_bit 16 w) :: byte)) OR
        push_bit 8 (ucast (ucast (drop_bit 8 w) :: byte)) OR ucast (ucast w :: byte) = w"
  proof (rule bit_word_eqI)
    fix n :: nat
    assume n: "n < LENGTH(32)"
    consider "n < 8" | "8 \<le> n" "n < 16" | "16 \<le> n" "n < 24" | "24 \<le> n" "n < 32"
      using n by fastforce
    then show "bit (push_bit 24 (ucast (ucast (drop_bit 24 w) :: byte)) OR
        push_bit 16 (ucast (ucast (drop_bit 16 w) :: byte)) OR
        push_bit 8 (ucast (ucast (drop_bit 8 w) :: byte)) OR
        ucast (ucast w :: byte) :: 32 word) n = bit w n"
      by cases (auto simp: bit_simps)
  qed
  then show ?thesis
    by (simp add: add_32bit_float_def fromRegisters_def pack_H_be16)
qed

lemma length_float_registers: "length (to_registers (add_32bit_float w)) = 2"
  by (simp add: add_32bit_float_def)

lemma unpack_slices_even:
  "even (length bs) \<Longrightarrow> unpack_slices (byte_slices bs) = Inr (to_registers bs)"
  by (induction bs rule: byte_slices.induct) auto

lemma unpack_slices_odd:
  "odd (length bs) \<Longrightarrow> unpack_slices (byte_slices bs) = Inl StructError"
  by (induction bs rule: byte_slices.induct) auto

lemma length_to_registers: "length (to_registers bs) = length bs div 2"
  by (induction bs rule: to_registers.induct) auto

lemma from_to_registers:
  "even (length bs) \<Longrightarrow> concat (map pack_H (to_registers bs)) = bs"
  by (induction bs rule: byte_slices.induct) (auto simp: pack_H_be16)

subsection \<open>Characters and bytes\<close>

lemma unat_of_char: "unat (of_char c :: byte) = of_char c"
proof -
  have "(of_char c :: byte) = of_nat (of_char c)"
    by (simp add: of_nat_of_char)
  moreover have "(of_char c :: nat) < 2 ^ LENGTH(8)"
    by simp
  ultimately show ?thesis
    by (simp add: unat_of_nat del: of_nat_of_char)
qed

lemma decode_encode_ascii:
  "list_all (\<lambda>c. (of_char c :: nat) < 128) s \<Longrightarrow> decode_ascii (map of_char s) = Inr s"
  by (induction s) (auto simp: decode_ascii_def unat_of_char list_all_iff)

lemma encode_ascii_append:
  "list_all (\<lambda>c. (of_char c :: nat) < 128) s \<Longrightarrow>
   encode_ascii (s @ replicate k (CHR 0x00)) = Inr (map of_char (s @ replicate k (CHR 0x00)))"
  by (auto simp: encode_ascii_def list_all_iff)

lemma rstrip_padded:
  "s = [] \<or> last s \<noteq> c \<Longrightarrow> rstrip (s @ replicate k c) c = s"
  by (cases s rule: rev_cases) (auto simp: rstrip_def dropWhile_append3)

subsection \<open>Reading back what was written\<close>

lemma block_get_set:
  "address \<le> length block \<Longrightarrow>
   block_getValues address (length vals) (block_setValues address vals block) = vals"
  by (simp add: block_getValues_def block_setValues_def)

lemma getValues3_setValues3:
  "address \<le> length (hr context) \<Longrightarrow>
   getValues3 (setValues3 context address vals) address (length vals) = vals"
  by (simp add: getValues3_def setValues3_def block_get_set)

lemma string_registers_even:
  assumes "list_all (\<lambda>c. (of_char c :: nat) < 128) s" and "even (max (length s) n)"
  shows "string_registers s n = Inr (to_registers (map of_char (ljust s n (CHR 0x00))))"
proof -
  have "even (length (ljust s n (CHR 0x00)))"
    using assms(2) by (simp add: ljust_def max_def split: if_splits)
  then show ?thesis
    using assms(1)
    by (simp add: string_registers_def ljust_def encode_ascii_append unpack_slices_even)
qed

lemma string_registers_odd:
  assumes "list_all (\<lambda>c. (of_char c :: nat) < 128) s" and "odd (max (length s) n)"
  shows "string_registers s n = Inl StructError"
proof -
  have "odd (length (ljust s n (CHR 0x00)))"
    using assms(2) by (simp add: ljust_def max_def split: if_splits)
  then show ?thesis
    using assms(1)
    by (simp add: string_registers_def ljust_def encode_ascii_append unpack_slices_odd)
qed

subsection \<open>Writes inside the block and reads beside them\<close>

lemma length_block_setValues:
  "b + length vs \<le> length blk \<Longrightarrow> length (block_setValues b vs blk) = length blk"
  by (simp add: block_setValues_def)

lemma block_get_set_other:
  assumes "b + length vs \<le> length blk" and "a + n \<le> b \<or> b + length vs \<le> a"
  shows "block_getValues a n (block_setValues b vs blk) = block_getValues a n blk"
proof -
  have len: "length (block_setValues b vs blk) = length blk"
    using assms(1) by (rule length_block_setValues)
  have "take n (drop a (block_setValues b vs blk)) = take n (drop a blk)"
  proof (rule nth_equalityI)
    show "length (take n (drop a (block_setValues b vs blk))) = length (take n (drop a blk))"
      by (simp add: len)
  next
    fix i
    assume "i < length (take n (drop a (block_setValues b vs blk)))"
    then have i: "i < n" "a + i < length blk"
      by (auto simp: len)
    from assms(2) i have "a + i < b \<or> b + length vs \<le> a + i"
      by linarith
    then have "block_setValues b vs blk ! (a + i) = blk ! (a + i)"
      using assms(1) i by (auto simp: block_setValues_def nth_append)
    then show "take n (drop a (block_setValues b vs blk)) ! i = take n (drop a blk) ! i"
      using i by (simp add: len)
  qed
  then show ?thesis
    by (simp add: block_getValues_def)
qed

lemma length_hr_setValues3:
  "b + length vs \<le> length (hr c) \<Longrightarrow> length (hr (setValues3 c b vs)) = length (hr c)"
  by (simp add: setValues3_def length_block_setValues)

lemma getValues3_setValues3_other:
  "b + length vs \<le> length (hr c) \<Longrightarrow> a + n \<le> b \<or> b + length vs \<le> a \<Longrightarrow>
   getValues3 (setValues3 c b vs) a n = getValues3 c a n"
  by (simp add: getValues3_def setValues3_def block_get_set_other)

lemma length_hr_write_float:
  "b + 2 \<le> length (hr c) \<Longrightarrow> length (hr (write_float f32 c b v)) = length (hr c)"
  by (simp add: write_float_def length_hr_setValues3 length_float_registers)

lemma getValues3_write_float:
  "b \<le> length (hr c) \<Longrightarrow>
   getValues3 (write_float f32 c b v) b 2 = to_registers (add_32bit_float (f32 v))"
  using getValues3_setValues3 [of b c "to_registers (add_32bit_float (f32 v))"]
  by (simp add: write_float_def length_float_registers)

lemma getValues3_write_float_other:
  "b + 2 \<le> length (hr c) \<Longrightarrow> a + n \<le> b \<or> b + 2 \<le> a \<Longrightarrow>
   getValues3 (write_float f32 c b v) a n = getValues3 c a n"
  by (simp add: write_float_def getValues3_setValues3_other length_float_registers)

lemma decode_float_registers_written:
  "decode_float_registers (to_registers (add_32bit_float w)) = Inr w"
  by (simp add: decode_float_registers_def float_bits_roundtrip)

subsection \<open>The server context after construction\<close>

lemma setup_devices_shape:
  "setup_devices f32 r ds (h, m) = Inr (h', m') \<Longrightarrow>
   length h' = length h
   \<and> (\<forall>i. m' i = (if i \<in> device_id ` set ds \<and> i \<in> {1, 2} then Some r else m i))"
proof (induction ds arbitrary: h m)
  case Nil
  then show ?case by simp
next
  case (Cons d ds)
  show ?case
  proof (cases "device_id d \<in> {1, 2}")
    case False
    with Cons.prems have "setup_devices f32 r ds (h, m) = Inr (h', m')"
      by simp
    from Cons.IH [OF this] False show ?thesis
      by auto
  next
    case True
    with Cons.prems obtain c where
      rest: "setup_devices f32 r ds (h[r := c], m(device_id d \<mapsto> r)) = Inr (h', m')"
      by (auto split: sum.splits)
    from Cons.IH [OF rest] True show ?thesis
      by auto
  qed
qed

lemma simulator_init_shape:
  assumes "simulator_init f32 cfg = Inr sim"
  shows "length (heap sim) = 1"
    and "slaves sim i = (if i \<in> device_id ` set cfg \<and> i \<in> {1, 2} then Some 0 else None)"
    and "config sim = cfg"
proof -
  from assms obtain h m where
    run: "setup_devices f32 0 cfg
              ([\<lparr>hr = replicate 65536 0, ir = replicate 65536 0\<rparr>], Map.empty) = Inr (h, m)"
    and sim: "sim = \<lparr>config = cfg, heap = h, slaves = m, log_lines = [], random_calls = 0\<rparr>"
    by (auto simp: simulator_init_def setup_server_context_def create_slave_context_def
        split: sum.splits)
  from setup_devices_shape [OF run] sim
  show "length (heap sim) = 1"
    and "slaves sim i = (if i \<in> device_id ` set cfg \<and> i \<in> {1, 2} then Some 0 else None)"
    and "config sim = cfg"
    by simp_all
qed

lemma setup_devices_succeeds:
  "\<forall>d\<in>set ds. \<forall>c. \<exists>c'. init_device f32 d c = Inr c' \<Longrightarrow>
   \<exists>h' m'. setup_devices f32 r ds (h, m) = Inr (h', m')"
proof (induction ds arbitrary: h m)
  case Nil
  then show ?case by simp
next
  case (Cons d ds)
  from Cons.prems obtain c where c: "init_device f32 d (h ! r) = Inr c"
    by fastforce
  from Cons.prems have "\<forall>d\<in>set ds. \<forall>c. \<exists>c'. init_device f32 d c = Inr c'"
    by simp
  from Cons.IH [OF this] c show ?case
    by simp
qed

subsection \<open>No write makes a block shorter\<close>

lemma length_block_setValues_ge: "length blk \<le> length (block_setValues b vs blk)"
  by (simp add: block_setValues_def)

lemma length_hr_setValues3_ge: "length (hr c) \<le> length (hr (setValues3 c b vs))"
  by (simp add: setValues3_def length_block_setValues_ge)

lemma length_hr_write_float_ge: "length (hr c) \<le> length (hr (write_float f32 c b v))"
  by (simp add: write_float_def length_hr_setValues3_ge)

lemma length_hr_write_string_ge:
  "write_string c b s n = Inr c' \<Longrightarrow> length (hr c) \<le> length (hr c')"
  by (auto simp: write_string_def length_hr_setValues3_ge split: sum.splits)

lemma length_hr_write_product_info_ge:
  assumes "write_product_info c pinfo pn sn = Inr c'"
  shows "length (hr c) \<le> length (hr c')"
proof -
  from assms obtain c1 where
    first: "(case product_number pinfo of
               Some f \<Rightarrow> write_string c (field_address f) pn (field_length f)
             | None \<Rightarrow> Inr c) = Inr c1"
    and second: "(case serial_number pinfo of
               Some f \<Rightarrow> write_string c1 (field_address f) sn (field_length f)
             | None \<Rightarrow> Inr c1) = Inr c'"
    by (auto simp: write_product_info_def split: sum.splits)
  from first have "length (hr c) \<le> length (hr c1)"
    by (auto split: option.splits dest: length_hr_write_string_ge)
  moreover from second have "length (hr c1) \<le> length (hr c')"
    by (auto split: option.splits dest: length_hr_write_string_ge)
  ultimately show ?thesis
    by simp
qed

lemma length_hr_init_sfp_data_ge: "length (hr c) \<le> length (hr (init_sfp_data f32 c ss))"
proof (induction ss arbitrary: c)
  case Nil
  then show ?case by simp
next
  case (Cons s ss)
  show ?case
  proof (cases "init_sfp_base_values (sfp s)")
    case None
    then show ?thesis using Cons.IH [of c] by simp
  next
    case (Some base)
    obtain tx rx where base: "base = (tx, rx)"
      by (cases base)
    let ?c3 = "write_float f32 (write_float f32 (write_float f32 c (tx_power s) tx)
                 (rx_power s) rx) (temperature s) 25"
    have "length (hr c) \<le> length (hr ?c3)"
      by (meson length_hr_write_float_ge order_trans)
    also have "\<dots> \<le> length (hr (init_sfp_data f32 ?c3 ss))"
      by (rule Cons.IH)
    finally show ?thesis
      using Some base by simp
  qed
qed

lemma length_hr_update_sfp_values_ge:
  "length (hr c) \<le> length (hr (fst (update_sfp_values f32 rng (c, k) ss)))"
proof (induction ss arbitrary: c k)
  case Nil
  then show ?case by simp
next
  case (Cons s ss)
  show ?case
  proof (cases "update_sfp_base_values (sfp s)")
    case None
    then show ?thesis using Cons.IH [of c k] by simp
  next
    case (Some base)
    obtain t r m where var: "sfp_variation rng k base = (t, r, m)"
      by (cases "sfp_variation rng k base")
    let ?c3 = "write_float f32 (write_float f32 (write_float f32 c (tx_power s) t)
                 (rx_power s) r) (temperature s) m"
    have "length (hr c) \<le> length (hr ?c3)"
      by (meson length_hr_write_float_ge order_trans)
    also have "\<dots> \<le> length (hr (fst (update_sfp_values f32 rng (?c3, k + 3) ss)))"
      by (rule Cons.IH)
    finally show ?thesis
      using Some var by simp
  qed
qed

lemma length_hr_init_device_ge:
  "init_device f32 d c = Inr c' \<Longrightarrow> length (hr c) \<le> length (hr c')"
  by (auto simp: init_device_def init_product_info_def length_hr_init_sfp_data_ge
      split: option.splits bool.splits dest: length_hr_write_product_info_ge)

lemma setup_devices_heap:
  "setup_devices f32 0 ds ([c], m) = Inr (h', m') \<Longrightarrow>
   \<exists>c'. h' = [c'] \<and> length (hr c) \<le> length (hr c')"
proof (induction ds arbitrary: c m)
  case Nil
  then show ?case by auto
next
  case (Cons d ds)
  show ?case
  proof (cases "device_id d \<in> {1, 2}")
    case False
    with Cons.prems have "setup_devices f32 0 ds ([c], m) = Inr (h', m')"
      by simp
    from Cons.IH [OF this] show ?thesis .
  next
    case True
    with Cons.prems obtain c1 where
      c1: "init_device f32 d c = Inr c1"
      and rest: "setup_devices f32 0 ds ([c1], m(device_id d \<mapsto> 0)) = Inr (h', m')"
      by (auto split: sum.splits)
    from Cons.IH [OF rest] obtain c' where "h' = [c']" "length (hr c1) \<le> length (hr c')"
      by blast
    with length_hr_init_device_ge [OF c1] show ?thesis
      by auto
  qed
qed

lemma simulator_init_heap:
  assumes "simulator_init f32 cfg = Inr sim"
  shows "\<exists>c. heap sim = [c] \<and> 65536 \<le> length (hr c)"
proof -
  from assms obtain h m where
    run: "setup_devices f32 0 cfg
              ([\<lparr>hr = replicate 65536 0, ir = replicate 65536 0\<rparr>], Map.empty) = Inr (h, m)"
    and sim: "sim = \<lparr>config = cfg, heap = h, slaves = m, log_lines = [], random_calls = 0\<rparr>"
    by (auto simp: simulator_init_def setup_server_context_def create_slave_context_def
        split: sum.splits)
  from setup_devices_heap [OF run] sim show ?thesis
    by auto
qed

subsection \<open>One tick\<close>

lemma update_device_other:
  assumes "device_id x \<noteq> 2" and "heap sim = [c]"
    and "device_id x = 1 \<longrightarrow> slaves sim 1 = Some 0"
  shows "\<exists>sim' c'. update_device f32 rng k x sim = Inr sim' \<and> heap sim' = [c']
           \<and> length (hr c) \<le> length (hr c') \<and> slaves sim' = slaves sim
           \<and> config sim' = config sim"
proof (cases "device_id x = 1")
  case False
  with assms show ?thesis
    by (simp add: update_device_def)
next
  case True
  show ?thesis
  proof (cases "registers x")
    case None
    with True assms show ?thesis
      by (simp add: update_device_def)
  next
    case (Some regs)
    show ?thesis
    proof (cases "sfps regs")
      case None
      with Some True assms show ?thesis
        by (simp add: update_device_def)
    next
      case (Some ss)
      obtain c' k' where upd: "update_sfp_values f32 rng (c, random_calls sim) ss = (c', k')"
        by (cases "update_sfp_values f32 rng (c, random_calls sim) ss")
      have "length (hr c) \<le> length (hr c')"
        using length_hr_update_sfp_values_ge [of c f32 rng "random_calls sim" ss] upd by simp
      with Some \<open>registers x = Some regs\<close> True assms upd show ?thesis
        by (simp add: update_device_def)
    qed
  qed
qed

lemma update_devices_other:
  assumes "list_all (\<lambda>x. device_id x \<noteq> 2) ds" and "heap sim = [c]"
    and "slaves sim 1 = Some 0 \<or> list_all (\<lambda>x. device_id x \<noteq> 1) ds"
  shows "\<exists>sim' c'. update_devices f32 rng k ds sim = Inr sim' \<and> heap sim' = [c']
           \<and> length (hr c) \<le> length (hr c') \<and> slaves sim' = slaves sim
           \<and> config sim' = config sim"
  using assms
proof (induction ds arbitrary: sim c)
  case Nil
  then show ?case by simp
next
  case (Cons x ds)
  from Cons.prems have "device_id x \<noteq> 2" and "device_id x = 1 \<longrightarrow> slaves sim 1 = Some 0"
    by auto
  from update_device_other [OF this(1) Cons.prems(2) this(2), of f32 rng k]
  obtain sim1 c1 where
    one: "update_device f32 rng k x sim = Inr sim1" "heap sim1 = [c1]"
      "length (hr c) \<le> length (hr c1)" "slaves sim1 = slaves sim" "config sim1 = config sim"
    by blast
  from Cons.prems one have "list_all (\<lambda>x. device_id x \<noteq> 2) ds"
    and "slaves sim1 1 = Some 0 \<or> list_all (\<lambda>x. device_id x \<noteq> 1) ds"
    by auto
  from Cons.IH [OF this(1) one(2) this(2)]
  obtain sim' c' where
    "update_devices f32 rng k ds sim1 = Inr sim'" "heap sim' = [c']"
    "length (hr c1) \<le> length (hr c')" "slaves sim' = slaves sim1" "config sim' = config sim1"
    by blast
  with one show ?case
    by auto
qed


subsection \<open>A string written inside the block\<close>

lemma decode_padded_registers:
  assumes "list_all (\<lambda>c. (of_char c :: nat) < 128) s" and "length s \<le> n" and "even n"
    and "s = [] \<or> last s \<noteq> CHR 0x00"
  shows "decode_string_registers (to_registers (map of_char (ljust s n (CHR 0x00)))) = Inr s"
proof -
  let ?padded = "ljust s n (CHR 0x00)"
  have len: "length ?padded = n"
    using assms(2) by (simp add: ljust_def)
  have bytes: "concat (map pack_H (to_registers (map of_char ?padded))) = map of_char ?padded"
    using assms(3) len by (simp add: from_to_registers)
  have ascii: "list_all (\<lambda>c. (of_char c :: nat) < 128) ?padded"
    using assms(1) by (auto simp: ljust_def list_all_iff)
  have "decode_string_registers (to_registers (map of_char ?padded))
          = Inr (rstrip ?padded (CHR 0x00))"
    by (simp add: decode_string_registers_def bytes decode_encode_ascii [OF ascii])
  then show ?thesis
    using assms(4) by (simp add: ljust_def rstrip_padded)
qed

lemma write_string_padded:
  assumes "list_all (\<lambda>c. (of_char c :: nat) < 128) s" and "length s \<le> n" and "even n"
  shows "write_string c a s n
           = Inr (setValues3 c a (to_registers (map of_char (ljust s n (CHR 0x00)))))"
    and "length (to_registers (map of_char (ljust s n (CHR 0x00)))) = n div 2"
proof -
  show "write_string c a s n
           = Inr (setValues3 c a (to_registers (map of_char (ljust s n (CHR 0x00)))))"
    using assms by (simp add: write_string_def string_registers_even max_def)
  show "length (to_registers (map of_char (ljust s n (CHR 0x00)))) = n div 2"
    using assms(2) by (simp add: length_to_registers ljust_def)
qed

lemma update_device_product_info:
  assumes "device_id d = 2" and "registers d = Some regs" and "product_info regs = Some pinfo"
    and "slaves s 2 = Some r"
  shows "update_device f32 rng k d s =
     (if k mod 10 = 0
      then (case update_product_info (heap s ! r) pinfo ''PROD-12'' ''SN-Q10'' of
              Inl e \<Rightarrow> Inl e
            | Inr c \<Rightarrow> Inr (s\<lparr>heap := (heap s)[r := c],
                               log_lines := log_lines s @ [Completed_Product_Info_update]\<rparr>))
      else Inr s)"
  using assms by (simp add: update_device_def split: option.splits)

lemma write_product_info_both:
  assumes "product_number pinfo = Some pf" and "serial_number pinfo = Some sf"
    and "list_all (\<lambda>c. (of_char c :: nat) < 128) pn" and "pn = [] \<or> last pn \<noteq> CHR 0x00"
    and "list_all (\<lambda>c. (of_char c :: nat) < 128) sn" and "sn = [] \<or> last sn \<noteq> CHR 0x00"
    and "even (field_length pf)" and "length pn \<le> field_length pf"
    and "even (field_length sf)" and "length sn \<le> field_length sf"
    and "field_address pf + field_length pf div 2 \<le> length (hr c)"
    and "field_address sf + field_length sf div 2 \<le> length (hr c)"
    and "field_address pf + field_length pf div 2 \<le> field_address sf
         \<or> field_address sf + field_length sf div 2 \<le> field_address pf"
  shows "\<exists>c'. write_product_info c pinfo pn sn = Inr c' \<and> length (hr c') = length (hr c)
           \<and> decode_string_registers
               (getValues3 c' (field_address pf) ((field_length pf + 1) div 2)) = Inr pn
           \<and> decode_string_registers
               (getValues3 c' (field_address sf) ((field_length sf + 1) div 2)) = Inr sn"
proof -
  let ?rp = "to_registers (map of_char (ljust pn (field_length pf) (CHR 0x00)))"
  let ?rs = "to_registers (map of_char (ljust sn (field_length sf) (CHR 0x00)))"
  let ?c1 = "setValues3 c (field_address pf) ?rp"
  let ?c2 = "setValues3 ?c1 (field_address sf) ?rs"
  have lp: "length ?rp = field_length pf div 2" and ls: "length ?rs = field_length sf div 2"
    using assms(8,10) by (simp_all add: length_to_registers ljust_def)
  have cp: "(field_length pf + 1) div 2 = field_length pf div 2"
    and cs: "(field_length sf + 1) div 2 = field_length sf div 2"
    using assms(7,9) by simp_all
  have l1: "length (hr ?c1) = length (hr c)"
    using assms(11) lp by (simp add: length_hr_setValues3)
  have l2: "length (hr ?c2) = length (hr c)"
    using assms(12) ls l1 by (simp add: length_hr_setValues3)
  have w1: "write_string c (field_address pf) pn (field_length pf) = Inr ?c1"
    using assms(3,8,7) by (rule write_string_padded(1))
  have w2: "write_string ?c1 (field_address sf) sn (field_length sf) = Inr ?c2"
    using assms(5,10,9) by (rule write_string_padded(1))
  have run: "write_product_info c pinfo pn sn = Inr ?c2"
    using assms(1,2) w1 w2 by (simp add: write_product_info_def)
  have "getValues3 ?c2 (field_address pf) (field_length pf div 2)
          = getValues3 ?c1 (field_address pf) (field_length pf div 2)"
    using assms(12,13) l1 ls
    by (intro getValues3_setValues3_other) auto
  also have "\<dots> = ?rp"
    using getValues3_setValues3 [of "field_address pf" c ?rp] assms(11) lp by simp
  finally have rp: "getValues3 ?c2 (field_address pf) ((field_length pf + 1) div 2) = ?rp"
    using cp by simp
  have "getValues3 ?c2 (field_address sf) (field_length sf div 2) = ?rs"
    using getValues3_setValues3 [of "field_address sf" ?c1 ?rs] assms(12) l1 ls by simp
  then have rs: "getValues3 ?c2 (field_address sf) ((field_length sf + 1) div 2) = ?rs"
    using cs by simp
  have "decode_string_registers ?rp = Inr pn"
    using assms(3,8,7,4) by (rule decode_padded_registers)
  moreover have "decode_string_registers ?rs = Inr sn"
    using assms(5,10,9,6) by (rule decode_padded_registers)
  ultimately show ?thesis
    using run l2 rp rs by simp
qed

subsection \<open>Construction as a list of writes\<close>




lemma write_float_as_write: "write_float f32 c a v = apply_writes [float_write f32 a v] c"
  by (simp add: write_float_def float_write_def apply_writes_def)








subsection \<open>Disjoint writes are read back\<close>



subsection \<open>The writes of a configured field\<close>






subsection \<open>What construction writes, and what it leaves\<close>



subsection \<open>A pass of the update thread leaves the other registers\<close>















subsection \<open>The strings of a refreshed device\<close>




subsection \<open>The passes of the update thread\<close>




subsection \<open>The simulator that construction leaves\<close>




section \<open>The claims about the codec\<close>

text \<open>
  C1. A float written by the simulator's \<^verbatim>\<open>write_float\<close> and decoded by the client's
  \<^verbatim>\<open>read_float\<close> keeps its bit pattern: the two registers written at an address of the
  block decode to the binary32 pattern \<open>f32 x\<close> of the value, whatever the pattern is, and
  \<^verbatim>\<open>read_float\<close> on a response that carries these registers returns the float of that
  pattern.
\<close>

theorem write_float_read_float_roundtrip:
  assumes "address \<le> length (hr context)"
  shows "decode_float_registers (getValues3 (write_float f32 context address x) address 2)
           = Inr (f32 x)
       \<and> read_float unf32 (\<lambda>a n dev. Some (getValues3 (write_float f32 context address x) a n))
           device address = Inr (Some (unf32 (f32 x)))"
proof -
  have "getValues3 (write_float f32 context address x) address 2
          = to_registers (add_32bit_float (f32 x))"
    using getValues3_setValues3 [OF assms, of "to_registers (add_32bit_float (f32 x))"]
    by (simp add: write_float_def length_float_registers)
  then show ?thesis
    by (simp add: read_float_def decode_float_registers_def float_bits_roundtrip)
qed

theorem write_float_read_float_roundtrip_witness:
  "(100::nat) \<le> length (hr \<lparr>hr = replicate 65536 0, ir = replicate 65536 0\<rparr>)
   \<and> decode_float_registers
       (getValues3 (write_float (\<lambda>v. 0x3DCCCCCD) \<lparr>hr = replicate 65536 0, ir = replicate 65536 0\<rparr>
          100 0.1) 100 2) = Inr 0x3DCCCCCD"
  using write_float_read_float_roundtrip
    [of 100 "\<lparr>hr = replicate 65536 0, ir = replicate 65536 0\<rparr>" "\<lambda>v. 0x3DCCCCCD" "0.1"]
  by simp

text \<open>
  C2, as amended. For every ASCII string \<open>s\<close> that does not end in a NUL character and
  every even declared length \<open>n\<close> with \<open>length s \<le> n\<close>, \<^verbatim>\<open>write_string\<close> at length \<open>n\<close>
  succeeds, and the \<open>(n + 1) div 2\<close> registers \<^verbatim>\<open>read_string\<close> asks for at that address
  decode to exactly \<open>s\<close>.
\<close>

theorem write_string_read_string_roundtrip:
  assumes "list_all (\<lambda>c. (of_char c :: nat) < 128) s"
    and "length s \<le> n"
    and "even n"
    and "s = [] \<or> last s \<noteq> CHR 0x00"
    and "address \<le> length (hr context)"
  shows "\<exists>context'. write_string context address s n = Inr context'
           \<and> decode_string_registers (getValues3 context' address ((n + 1) div 2)) = Inr s"
proof -
  let ?padded = "ljust s n (CHR 0x00)"
  let ?regs = "to_registers (map of_char ?padded)"
  have len: "length ?padded = n"
    using assms(2) by (simp add: ljust_def)
  have regs: "string_registers s n = Inr ?regs"
    using assms(1-3) by (simp add: string_registers_even max_def)
  have count: "length ?regs = (n + 1) div 2"
    using assms(3) len by (simp add: length_to_registers)
  have bytes: "concat (map pack_H ?regs) = map of_char ?padded"
    using assms(3) len by (simp add: from_to_registers)
  have ascii: "list_all (\<lambda>c. (of_char c :: nat) < 128) ?padded"
    using assms(1) by (auto simp: ljust_def list_all_iff)
  have "decode_string_registers ?regs = Inr (rstrip ?padded (CHR 0x00))"
    by (simp add: decode_string_registers_def bytes decode_encode_ascii [OF ascii])
  then have dec: "decode_string_registers ?regs = Inr s"
    using assms(4) by (simp add: ljust_def rstrip_padded)
  have "getValues3 (setValues3 context address ?regs) address ((n + 1) div 2) = ?regs"
    using getValues3_setValues3 [OF assms(5), of ?regs] count by simp
  then show ?thesis
    using regs dec by (simp add: write_string_def)
qed

theorem write_string_read_string_roundtrip_witness:
  "\<exists>context'. write_string \<lparr>hr = replicate 65536 0, ir = replicate 65536 0\<rparr> 200 ''PROD-12'' 10
       = Inr context'
     \<and> decode_string_registers (getValues3 context' 200 ((10 + 1) div 2)) = Inr ''PROD-12''"
  using write_string_read_string_roundtrip
    [of "''PROD-12''" 10 200 "\<lparr>hr = replicate 65536 0, ir = replicate 65536 0\<rparr>"]
  by simp

text \<open>
  C2 as stated fails twice. At the odd length 11 the encoder raises on the last, one-byte
  slice of \<open>''PROD123''\<close> padded to 11 bytes, so there is nothing to decode; and the ASCII
  string \<open>a\<close> followed by NUL, written at length 2, decodes to \<open>a\<close> alone.
\<close>

theorem write_string_read_string_counterexample:
  "string_registers ''PROD123'' 11 = Inl StructError
   \<and> string_registers [CHR ''a'', CHR 0x00] 2 = Inr [0x6100]
   \<and> decode_string_registers [0x6100] = Inr ''a''
   \<and> ''a'' \<noteq> [CHR ''a'', CHR 0x00]"
  by code_simp

text \<open>
  C3. The claim holds of the specification and fails on the code: for the odd length 11,
  \<^verbatim>\<open>write_string\<close> raises \<^verbatim>\<open>struct.error\<close> on the one-byte slice that ends the padded
  value, and writes nothing, where the claim has six registers.
\<close>

theorem write_string_odd_length_raises:
  "write_string context address ''PROD123'' 11 = Inl StructError"
  using string_registers_odd [of "''PROD123''" 11] by (simp add: write_string_def)

text \<open>
  C4, as amended. \<^verbatim>\<open>write_string\<close> has no test of the length and no error for a value
  that is too long. For an ASCII value whose length is even and greater than the declared
  length \<open>n\<close>, it succeeds: it writes the whole value, unpadded, in \<open>length s div 2\<close>
  registers, which unpack to the bytes of the value. That is never fewer than the
  \<open>(n + 1) div 2\<close> registers of the declared length, and more as soon as the value is at
  least two bytes longer than declared.
\<close>

theorem write_string_longer_than_declared:
  assumes "list_all (\<lambda>c. (of_char c :: nat) < 128) s"
    and "n < length s"
    and "even (length s)"
  shows "write_string context address s n
           = Inr (setValues3 context address (to_registers (map of_char s)))
       \<and> length (to_registers (map of_char s)) = length s div 2
       \<and> fromRegisters (to_registers (map of_char s)) = map of_char s
       \<and> (n + 1) div 2 \<le> length (to_registers (map of_char s))
       \<and> (n + 2 \<le> length s \<longrightarrow> (n + 1) div 2 < length (to_registers (map of_char s)))"
proof -
  have "ljust s n (CHR 0x00) = s"
    using assms(2) by (simp add: ljust_def)
  moreover have "string_registers s n = Inr (to_registers (map of_char (ljust s n (CHR 0x00))))"
    using assms by (simp add: string_registers_even max_def)
  moreover have "(n + 1) div 2 \<le> length s div 2"
    using assms(2) by (simp add: div_le_mono)
  moreover have "(n + 1) div 2 < length s div 2" if "n + 2 \<le> length s"
  proof -
    from assms(3) obtain m where "length s = 2 * m"
      by (auto elim: evenE)
    with that show ?thesis
      by simp
  qed
  ultimately show ?thesis
    using assms(3)
    by (simp add: write_string_def length_to_registers fromRegisters_def from_to_registers)
qed

theorem write_string_longer_than_declared_witness:
  "write_string \<lparr>hr = replicate 65536 0, ir = replicate 65536 0\<rparr> 300 ''PROD123456'' 8
     = Inr (setValues3 \<lparr>hr = replicate 65536 0, ir = replicate 65536 0\<rparr> 300
         (to_registers (map of_char ''PROD123456'')))
   \<and> length (to_registers (map of_char ''PROD123456'')) = length ''PROD123456'' div 2
   \<and> fromRegisters (to_registers (map of_char ''PROD123456'')) = map of_char ''PROD123456''
   \<and> (8 + 1) div 2 < length (to_registers (map of_char ''PROD123456''))"
  using write_string_longer_than_declared
    [of "''PROD123456''" 8 "\<lparr>hr = replicate 65536 0, ir = replicate 65536 0\<rparr>" 300]
  by simp

text \<open>
  C4 as stated fails: the 10 bytes of \<open>''PROD123456''\<close> at the declared length 8 are
  encoded without an error, in five registers where four hold 8 bytes.
\<close>

theorem write_string_too_long_counterexample:
  "string_registers ''PROD123456'' 8 = Inr [0x5052, 0x4F44, 0x3132, 0x3334, 0x3536]"
  by (simp add: string_registers_def ljust_def encode_ascii_def be16_def)

section \<open>The claims about the polling cycle and the drift\<close>

text \<open>
  C5. The claim holds of the specification and fails on the code. With one SFP channel on
  device 1 and a product number on device 2, and a transport that answers the read of the
  channel's \<^verbatim>\<open>rx_power\<close> with an error, \<^verbatim>\<open>read_float\<close> returns \<^verbatim>\<open>None\<close> and the \<^verbatim>\<open>print\<close> of
  the three values raises \<^verbatim>\<open>TypeError\<close>: the cycle ends after the two header lines, and
  device 2 is never read.
\<close>

theorem read_all_values_aborts_on_failed_float:
  "read_all_values unf32
     (\<lambda>address count dev. if dev = 1 \<and> address = 2 then None else Some (replicate count 0))
     [\<lparr>device_id = 1, description = ''SFP'', baudrate = 115200,
         registers = Some \<lparr>sfps = Some [\<lparr>sfp = 1, tx_power = 0, rx_power = 2, temperature = 4\<rparr>],
                           product_info = None\<rparr>\<rparr>,
      \<lparr>device_id = 2, description = ''Product'', baudrate = 115200,
         registers = Some \<lparr>sfps = None,
                           product_info = Some \<lparr>product_number =
                               Some \<lparr>field_address = 100, field_length = 10\<rparr>,
                             serial_number = None\<rparr>\<rparr>\<rparr>]
   = ([Reading_from 1 ''SFP'', SFP_header 1], Some TypeError)"
  by (simp add: read_all_values_def read_device_def read_float_def format_sfp_def
      decode_float_registers_def fromRegisters_def pack_H_def numeral_2_eq_2)

text \<open>
  C6. The claim holds of the specification and fails on the code. The table of
  \<^verbatim>\<open>update_sfp_values\<close> has the base 0.07 for \<^verbatim>\<open>rx\<close> where the table of \<^verbatim>\<open>init_sfp_data\<close> has
  0.1. When \<^verbatim>\<open>random.random()\<close> returns 0, the draw is \<open>-0.03\<close>, the tick writes the value
  0.04 at the channel's \<^verbatim>\<open>rx_power\<close> address, and 0.04 is not within 0.03 of the seeded 0.1.
\<close>

theorem update_sfp_values_rx_outside_seed_band:
  "init_sfp_base_values 1 = Some (3.0, 0.1)
   \<and> update_sfp_base_values 1 = Some (3.0, 0.07)
   \<and> sfp_variation (\<lambda>k. 0) 0 (3.0, 0.07) = (2.95, 0.04, 24.0)
   \<and> decode_float_registers
        (getValues3
           (fst (update_sfp_values f32 (\<lambda>k. 0)
                   (\<lparr>hr = replicate 65536 0, ir = replicate 65536 0\<rparr>, 0)
                   [\<lparr>sfp = 1, tx_power = 0, rx_power = 2, temperature = 4\<rparr>])) 2 2)
        = Inr (f32 0.04)
   \<and> \<not> (0.1 - 0.03 \<le> (0.04 :: real) \<and> (0.04 :: real) \<le> 0.1 + 0.03)"
proof -
  let ?c0 = "\<lparr>hr = replicate 65536 0, ir = replicate 65536 0\<rparr>"
  let ?c1 = "write_float f32 ?c0 0 2.95"
  let ?c2 = "write_float f32 ?c1 2 0.04"
  let ?c3 = "write_float f32 ?c2 4 24.0"
  have var: "sfp_variation (\<lambda>k. 0) 0 (3.0, 0.07) = (2.95, 0.04, 24.0)"
    by (simp add: sfp_variation_def uniform_def)
  have l1: "length (hr ?c1) = 65536"
    using length_hr_write_float [of 0 ?c0 f32 "2.95"] by simp
  have l2: "length (hr ?c2) = 65536"
    using length_hr_write_float [of 2 ?c1 f32 "0.04"] l1 by simp
  have "getValues3 ?c3 2 2 = getValues3 ?c2 2 2"
    using getValues3_write_float_other [of 4 ?c2 2 2 f32 "24.0"] l2 by simp
  also have "\<dots> = to_registers (add_32bit_float (f32 0.04))"
    using getValues3_write_float [of 2 ?c1 f32 "0.04"] l1 by simp
  finally have "decode_float_registers (getValues3 ?c3 2 2) = Inr (f32 0.04)"
    by (simp add: decode_float_registers_written)
  moreover have "fst (update_sfp_values f32 (\<lambda>k. 0) (?c0, 0)
                   [\<lparr>sfp = 1, tx_power = 0, rx_power = 2, temperature = 4\<rparr>]) = ?c3"
    using var by (simp add: update_sfp_base_values_def)
  ultimately show ?thesis
    using var by (simp add: init_sfp_base_values_def update_sfp_base_values_def)
qed

section \<open>The claims about construction\<close>

text \<open>
  C8, as amended. Construction makes no test on the device identifiers, and no error for
  a repeated identifier exists. It succeeds on every configuration in which the seeding of
  each device succeeds, repeated identifiers included; the simulator then keeps the
  configuration as it was loaded and serves exactly the identifiers 1 and 2 that the
  configuration names, one dictionary entry for each. Construction is all-or-nothing: it
  gives an error and no simulator, or a simulator.
\<close>

theorem simulator_init_accepts_repeated_ids:
  assumes "\<forall>d\<in>set cfg. \<forall>c. \<exists>c'. init_device f32 d c = Inr c'"
  shows "\<exists>sim. simulator_init f32 cfg = Inr sim \<and> config sim = cfg
           \<and> dom (slaves sim) = device_id ` set cfg \<inter> {1, 2}"
proof -
  from setup_devices_succeeds [OF assms] obtain h m where
    "setup_devices f32 0 cfg
       ([\<lparr>hr = replicate 65536 0, ir = replicate 65536 0\<rparr>], Map.empty) = Inr (h, m)"
    by blast
  then obtain sim where sim: "simulator_init f32 cfg = Inr sim"
    by (simp add: simulator_init_def setup_server_context_def create_slave_context_def)
  have "dom (slaves sim) = device_id ` set cfg \<inter> {1, 2}"
    using simulator_init_shape(2) [OF sim] by (auto simp: dom_def)
  with sim simulator_init_shape(3) [OF sim] show ?thesis
    by blast
qed

theorem simulator_init_accepts_repeated_ids_witness:
  "\<not> distinct (map device_id
       [\<lparr>device_id = 1, description = ''A'', baudrate = 9600,
          registers = Some \<lparr>sfps = Some [\<lparr>sfp = 1, tx_power = 0, rx_power = 2, temperature = 4\<rparr>],
                            product_info = None\<rparr>\<rparr>,
        \<lparr>device_id = 1, description = ''B'', baudrate = 9600, registers = None\<rparr>])
   \<and> (\<exists>sim. simulator_init (\<lambda>v. 0)
         [\<lparr>device_id = 1, description = ''A'', baudrate = 9600,
            registers = Some \<lparr>sfps = Some [\<lparr>sfp = 1, tx_power = 0, rx_power = 2, temperature = 4\<rparr>],
                              product_info = None\<rparr>\<rparr>,
          \<lparr>device_id = 1, description = ''B'', baudrate = 9600, registers = None\<rparr>] = Inr sim
        \<and> dom (slaves sim) = {1})"
  using simulator_init_accepts_repeated_ids [of
      "[\<lparr>device_id = 1, description = ''A'', baudrate = 9600,
          registers = Some \<lparr>sfps = Some [\<lparr>sfp = 1, tx_power = 0, rx_power = 2, temperature = 4\<rparr>],
                            product_info = None\<rparr>\<rparr>,
        \<lparr>device_id = 1, description = ''B'', baudrate = 9600, registers = None\<rparr>]" "\<lambda>v. 0"]
  by (auto simp: init_device_def)

text \<open>
  C8 as stated fails: two devices that both declare the identifier 1 are accepted, and the
  simulator serves the identifier 1.
\<close>

theorem duplicate_device_id_counterexample:
  "\<not> isl (simulator_init (\<lambda>v. 0)
       [\<lparr>device_id = 1, description = ''A'', baudrate = 9600, registers = None\<rparr>,
        \<lparr>device_id = 1, description = ''B'', baudrate = 9600, registers = None\<rparr>])
   \<and> slaves (projr (simulator_init (\<lambda>v. 0)
       [\<lparr>device_id = 1, description = ''A'', baudrate = 9600, registers = None\<rparr>,
        \<lparr>device_id = 1, description = ''B'', baudrate = 9600, registers = None\<rparr>])) 1 = Some 0"
  by (simp add: simulator_init_def setup_server_context_def create_slave_context_def
      init_device_def)

text \<open>
  C9, as amended. All served devices share one slave context. After construction the heap
  holds a single slave context, and the references of any two served identifiers are
  equal: what \<^verbatim>\<open>write_float\<close> writes through the reference of one served device is the
  content read through the reference of the other, at every register address.
\<close>

theorem served_devices_share_one_slave_context:
  assumes "simulator_init f32 cfg = Inr sim"
    and "slaves sim i = Some ri"
    and "slaves sim j = Some rj"
  shows "length (heap sim) = 1 \<and> ri = rj
       \<and> (heap sim)[ri := write_float f32 (heap sim ! ri) address v] ! rj
           = write_float f32 (heap sim ! ri) address v"
proof -
  have "length (heap sim) = 1"
    by (rule simulator_init_shape(1) [OF assms(1)])
  moreover have "ri = 0"
    using simulator_init_shape(2) [OF assms(1), of i] assms(2) by (simp split: if_splits)
  moreover have "rj = 0"
    using simulator_init_shape(2) [OF assms(1), of j] assms(3) by (simp split: if_splits)
  ultimately show ?thesis
    by simp
qed

theorem served_devices_share_one_slave_context_witness:
  "simulator_init (\<lambda>v. 1)
     [\<lparr>device_id = 1, description = ''A'', baudrate = 9600, registers = None\<rparr>,
      \<lparr>device_id = 2, description = ''B'', baudrate = 9600, registers = None\<rparr>]
     = Inr \<lparr>config =
              [\<lparr>device_id = 1, description = ''A'', baudrate = 9600, registers = None\<rparr>,
               \<lparr>device_id = 2, description = ''B'', baudrate = 9600, registers = None\<rparr>],
            heap = [\<lparr>hr = replicate 65536 0, ir = replicate 65536 0\<rparr>],
            slaves = [1 \<mapsto> 0, 2 \<mapsto> 0], log_lines = [], random_calls = 0\<rparr>
   \<and> [\<lparr>hr = replicate 65536 0, ir = replicate 65536 0\<rparr>]
        [0 := write_float (\<lambda>v. 1) \<lparr>hr = replicate 65536 0, ir = replicate 65536 0\<rparr> 7 3] ! 0
      = write_float (\<lambda>v. 1) \<lparr>hr = replicate 65536 0, ir = replicate 65536 0\<rparr> 7 3"
  using served_devices_share_one_slave_context [of "\<lambda>v. 1"
      "[\<lparr>device_id = 1, description = ''A'', baudrate = 9600, registers = None\<rparr>,
        \<lparr>device_id = 2, description = ''B'', baudrate = 9600, registers = None\<rparr>]"
      "\<lparr>config =
              [\<lparr>device_id = 1, description = ''A'', baudrate = 9600, registers = None\<rparr>,
               \<lparr>device_id = 2, description = ''B'', baudrate = 9600, registers = None\<rparr>],
            heap = [\<lparr>hr = replicate 65536 0, ir = replicate 65536 0\<rparr>],
            slaves = [1 \<mapsto> 0, 2 \<mapsto> 0], log_lines = [], random_calls = 0\<rparr>"
      1 0 2 0 7 3]
  by (simp add: simulator_init_def setup_server_context_def create_slave_context_def
      init_device_def)

text \<open>
  C9 as stated fails. Device 1 has one SFP channel with \<^verbatim>\<open>tx_power\<close> at address 0, and
  device 2 has no registers of its own. The bit pattern of 3.0 is taken to be 1 and that
  of every other value 2. After construction the address space of device 2 holds at
  address 0 the seed of device 1, and one tick, which writes for device 1 only, changes
  these registers of device 2.
\<close>

theorem independent_address_spaces_counterexample:
  "slaves (projr (simulator_init (\<lambda>v. if v = 3 then 1 else 2)
       [\<lparr>device_id = 1, description = ''A'', baudrate = 9600,
          registers = Some \<lparr>sfps = Some [\<lparr>sfp = 1, tx_power = 0, rx_power = 2, temperature = 4\<rparr>],
                            product_info = None\<rparr>\<rparr>,
        \<lparr>device_id = 2, description = ''B'', baudrate = 9600, registers = None\<rparr>])) 2 = Some 0
   \<and> getValues3 (heap (projr (simulator_init (\<lambda>v. if v = 3 then 1 else 2)
       [\<lparr>device_id = 1, description = ''A'', baudrate = 9600,
          registers = Some \<lparr>sfps = Some [\<lparr>sfp = 1, tx_power = 0, rx_power = 2, temperature = 4\<rparr>],
                            product_info = None\<rparr>\<rparr>,
        \<lparr>device_id = 2, description = ''B'', baudrate = 9600, registers = None\<rparr>])) ! 0) 0 2
       = [0, 1]
   \<and> slaves (projr (update_values (\<lambda>v. if v = 3 then 1 else 2) (\<lambda>k. 0) 1
       (projr (simulator_init (\<lambda>v. if v = 3 then 1 else 2)
       [\<lparr>device_id = 1, description = ''A'', baudrate = 9600,
          registers = Some \<lparr>sfps = Some [\<lparr>sfp = 1, tx_power = 0, rx_power = 2, temperature = 4\<rparr>],
                            product_info = None\<rparr>\<rparr>,
        \<lparr>device_id = 2, description = ''B'', baudrate = 9600, registers = None\<rparr>])))) 2 = Some 0
   \<and> getValues3 (heap (projr (update_values (\<lambda>v. if v = 3 then 1 else 2) (\<lambda>k. 0) 1
       (projr (simulator_init (\<lambda>v. if v = 3 then 1 else 2)
       [\<lparr>device_id = 1, description = ''A'', baudrate = 9600,
          registers = Some \<lparr>sfps = Some [\<lparr>sfp = 1, tx_power = 0, rx_power = 2, temperature = 4\<rparr>],
                            product_info = None\<rparr>\<rparr>,
        \<lparr>device_id = 2, description = ''B'', baudrate = 9600, registers = None\<rparr>])))) ! 0) 0 2
       = [0, 2]"
proof -
  let ?f = "\<lambda>v::real. if v = 3 then 1 else 2 :: 32 word"
  let ?d1 = "\<lparr>device_id = 1, description = ''A'', baudrate = 9600,
          registers = Some \<lparr>sfps = Some [\<lparr>sfp = 1, tx_power = 0, rx_power = 2, temperature = 4\<rparr>],
                            product_info = None\<rparr>\<rparr>"
  let ?d2 = "\<lparr>device_id = 2, description = ''B'', baudrate = 9600, registers = None\<rparr>"
  let ?c0 = "\<lparr>hr = replicate 65536 0, ir = replicate 65536 0\<rparr>"
  let ?a1 = "write_float ?f ?c0 0 3"
  let ?a2 = "write_float ?f ?a1 2 0.1"
  let ?a3 = "write_float ?f ?a2 4 25"
  let ?b1 = "write_float ?f ?a3 0 2.95"
  let ?b2 = "write_float ?f ?b1 2 0.04"
  let ?b3 = "write_float ?f ?b2 4 24"
  let ?sim0 = "\<lparr>config = [?d1, ?d2], heap = [?a3], slaves = [1 \<mapsto> 0, 2 \<mapsto> 0],
                log_lines = [], random_calls = 0\<rparr>"
  let ?sim1 = "\<lparr>config = [?d1, ?d2], heap = [?b3], slaves = [1 \<mapsto> 0, 2 \<mapsto> 0],
                log_lines = [Completed_SFP_update], random_calls = 3\<rparr>"
  have init: "simulator_init ?f [?d1, ?d2] = Inr ?sim0"
    by (simp add: simulator_init_def setup_server_context_def create_slave_context_def
        init_device_def init_sfp_base_values_def)
  have var: "sfp_variation (\<lambda>k. 0) 0 (3.0, 0.07) = (2.95, 0.04, 24)"
    by (simp add: sfp_variation_def uniform_def)
  have tick: "update_values ?f (\<lambda>k. 0) 1 ?sim0 = Inr ?sim1"
    using var
    by (simp add: update_values_def update_values_thread_def update_values_pass_def
        time_sleep_def update_device_def update_sfp_base_values_def)
  have la1: "length (hr ?a1) = 65536"
    using length_hr_write_float [of 0 ?c0 ?f 3] by simp
  have la2: "length (hr ?a2) = 65536"
    using length_hr_write_float [of 2 ?a1 ?f "0.1"] la1 by simp
  have la3: "length (hr ?a3) = 65536"
    using length_hr_write_float [of 4 ?a2 ?f 25] la2 by simp
  have lb1: "length (hr ?b1) = 65536"
    using length_hr_write_float [of 0 ?a3 ?f "2.95"] la3 by simp
  have lb2: "length (hr ?b2) = 65536"
    using length_hr_write_float [of 2 ?b1 ?f "0.04"] lb1 by simp
  have "getValues3 ?a3 0 2 = getValues3 ?a2 0 2"
    using getValues3_write_float_other [of 4 ?a2 0 2 ?f 25] la2 by simp
  also have "\<dots> = getValues3 ?a1 0 2"
    using getValues3_write_float_other [of 2 ?a1 0 2 ?f "0.1"] la1 by simp
  also have "\<dots> = to_registers (add_32bit_float 1)"
    using getValues3_write_float [of 0 ?c0 ?f 3] by simp
  finally have before: "getValues3 ?a3 0 2 = [0, 1]"
    by (simp add: add_32bit_float_def be16_def)
  have "getValues3 ?b3 0 2 = getValues3 ?b2 0 2"
    using getValues3_write_float_other [of 4 ?b2 0 2 ?f 24] lb2 by simp
  also have "\<dots> = getValues3 ?b1 0 2"
    using getValues3_write_float_other [of 2 ?b1 0 2 ?f "0.04"] lb1 by simp
  also have "\<dots> = to_registers (add_32bit_float 2)"
    using getValues3_write_float [of 0 ?a3 ?f "2.95"] la3 by simp
  finally have after: "getValues3 ?b3 0 2 = [0, 2]"
    by (simp add: add_32bit_float_def be16_def)
  show ?thesis
    unfolding init sum.sel tick
    using before after by simp
qed

section \<open>The claim about the seeded register space\<close>




section \<open>The claims about the update thread\<close>




end
